theory Spec2Isabelle
  imports Complex_Main
begin

section \<open>Python and tensor primitives used by the two evaluation scripts\<close>

text \<open>
  The scripts \<^verbatim>\<open>eval_adv.py\<close> and \<^verbatim>\<open>eval_robustness.py\<close> share one thresholding
  algorithm.  The model is a function from an input to its score vector, applied to a
  batch sample by sample (both scripts put it in evaluation mode).  Only the order of
  scores is ever used, so the score type is any linear order: floating-point values
  without NaN.  Counts are natural numbers; rates and the percentile parameter are exact
  rationals, so the rounding of floating-point products and quotients is left out.  The
  dataset provider, the attack and the file system are parameters.  Loading the
  checkpoint, creating the attack directory and the progress lines printed during
  calibration are not part of the model.

  Every exception the code can raise is a value of \<open>pyerr\<close>; \<open>TorchError\<close> stands for
  an error raised inside a tensor operation (empty reduction, index out of range in a
  tensor, sizes that do not broadcast).
\<close>

datatype pyerr =
    IndexError
  | ZeroDivisionError
  | ValueError
  | TypeError
  | AssertionError
  | UnboundLocalError
  | FileNotFoundError
  | TorchError

text \<open>
  \<^verbatim>\<open>t.max(dim=1)\<close> on one row: the largest value and the index of its first
  occurrence.  The scan keeps the best value seen so far and replaces it only by a
  strictly larger one.
\<close>

fun row_max_from :: "'a::linorder \<Rightarrow> nat \<Rightarrow> nat \<Rightarrow> 'a list \<Rightarrow> 'a \<times> nat" where
  "row_max_from best bi i [] = (best, bi)"
| "row_max_from best bi i (v # vs) =
     (if best < v then row_max_from v i (Suc i) vs else row_max_from best bi (Suc i) vs)"

fun row_max :: "'a::linorder list \<Rightarrow> 'a \<times> nat" where
  "row_max (v # vs) = row_max_from v 0 1 vs"
| "row_max [] = undefined"

definition argmax_row :: "'a::linorder list \<Rightarrow> nat" where
  "argmax_row row = snd (row_max row)"

text \<open>
  \<^verbatim>\<open>values, pred = t.max(dim=1)\<close> on a batch of rows.  A reduction over a dimension of
  size zero is an error.
\<close>

definition max_dim1 :: "'a::linorder list list \<Rightarrow> pyerr + ('a list \<times> nat list)" where
  "max_dim1 rows =
     (if [] \<in> set rows then Inl TorchError
      else Inr (map (\<lambda>r. fst (row_max r)) rows, map argmax_row rows))"

definition argmax_dim1 :: "'a::linorder list list \<Rightarrow> pyerr + nat list" where
  "argmax_dim1 rows =
     (if [] \<in> set rows then Inl TorchError else Inr (map argmax_row rows))"

text \<open>Boolean-mask indexing \<^verbatim>\<open>x[mask]\<close>: the entries whose mask bit is set, in order.\<close>

definition mask_select :: "bool list \<Rightarrow> 'b list \<Rightarrow> 'b list" where
  "mask_select idx xs = map snd (filter fst (zip idx xs))"

text \<open>\<^verbatim>\<open>mask.sum().item()\<close>: the number of set bits.\<close>

definition count_true :: "bool list \<Rightarrow> nat" where
  "count_true idx = length (filter (\<lambda>b. b) idx)"

text \<open>
  Index-tensor lookup \<^verbatim>\<open>thresholds[pred]\<close>: one threshold per predicted label; a label
  outside the threshold vector is an error.
\<close>

definition index_select :: "'a list \<Rightarrow> nat list \<Rightarrow> pyerr + 'a list" where
  "index_select thresholds pred =
     (if list_ex (\<lambda>j. length thresholds \<le> j) pred then Inl TorchError
      else Inr (map (\<lambda>j. thresholds ! j) pred))"

text \<open>
  Element-wise comparison of two one-dimensional tensors with broadcasting: equal sizes
  compare position by position, a tensor of size one is stretched, anything else is an
  error.
\<close>

definition broadcast2 :: "('b \<Rightarrow> 'c \<Rightarrow> bool) \<Rightarrow> 'b list \<Rightarrow> 'c list \<Rightarrow> pyerr + bool list" where
  "broadcast2 f xs ys =
     (if length xs = length ys then Inr (map2 f xs ys)
      else if length xs = 1 then Inr (map (f (hd xs)) ys)
      else if length ys = 1 then Inr (map (\<lambda>x. f x (hd ys)) xs)
      else Inl TorchError)"

text \<open>Python \<^verbatim>\<open>int(q)\<close> on a number: truncation towards zero.\<close>

definition py_int :: "rat \<Rightarrow> int" where
  "py_int q = (if 0 \<le> q then \<lfloor>q\<rfloor> else \<lceil>q\<rceil>)"

text \<open>
  Python list indexing \<^verbatim>\<open>xs[i]\<close>: a negative index counts from the end, an index
  outside \<open>[-len, len)\<close> raises \<^verbatim>\<open>IndexError\<close>.
\<close>

definition py_getitem :: "'b list \<Rightarrow> int \<Rightarrow> pyerr + 'b" where
  "py_getitem xs i =
     (let n = int (length xs) in
      if 0 \<le> i \<and> i < n then Inr (xs ! nat i)
      else if - n \<le> i \<and> i < 0 then Inr (xs ! nat (n + i))
      else Inl IndexError)"

text \<open>
  \<^verbatim>\<open>DataLoader(dataset, batch_size=n, shuffle=False)\<close>: consecutive batches of \<open>n\<close>
  samples, the last one possibly shorter; no batch is empty.  A batch size that is not
  positive is rejected when the loader is built.
\<close>

function batches :: "nat \<Rightarrow> 'b list \<Rightarrow> 'b list list" where
  "batches n xs = (if n = 0 \<or> xs = [] then [] else take n xs # batches n (drop n xs))"
  by pat_completeness auto
termination
  by (relation "measure (\<lambda>(n, xs). length xs)") auto

declare batches.simps [simp del]

definition DataLoader :: "nat \<Rightarrow> 'b list \<Rightarrow> pyerr + 'b list list" where
  "DataLoader batch_size dataset =
     (if batch_size = 0 then Inl ValueError else Inr (batches batch_size dataset))"

section \<open>Threshold calibration (both scripts)\<close>

text \<open>
  One pass of the inner calibration loop (\<^verbatim>\<open>eval_adv.py\<close> lines 66--74,
  \<^verbatim>\<open>eval_robustness.py\<close> lines 79--87): run the model on the batch, keep the samples
  whose argmax equals their label, and return their scores at \<open>label_id\<close>.  The column
  lookup \<^verbatim>\<open>ll_[:, label_id]\<close> needs the score tensor to be wider than \<open>label_id\<close>,
  whether or not any row was kept.
\<close>

definition calib_batch :: "('x \<Rightarrow> 'a::linorder list) \<Rightarrow> nat \<Rightarrow> ('x \<times> nat) list \<Rightarrow> pyerr + 'a list" where
  "calib_batch model label_id batch =
     (let x = map fst batch; y = map snd batch; ll = map model x in
      case argmax_dim1 ll of
        Inl e \<Rightarrow> Inl e
      | Inr am \<Rightarrow>
          let correct_idx = map2 (=) am y;
              ll' = mask_select correct_idx ll
          in if list_ex (\<lambda>r. length r \<le> label_id) ll then Inl TorchError
             else Inr (map (\<lambda>r. r ! label_id) ll'))"

fun calib_loop :: "('x \<Rightarrow> 'a::linorder list) \<Rightarrow> nat \<Rightarrow> ('x \<times> nat) list list \<Rightarrow> 'a list \<Rightarrow> pyerr + 'a list" where
  "calib_loop model label_id [] in_ll_list = Inr in_ll_list"
| "calib_loop model label_id (b # bs) in_ll_list =
     (case calib_batch model label_id b of
        Inl e \<Rightarrow> Inl e
      | Inr s \<Rightarrow> calib_loop model label_id bs (in_ll_list @ s))"

definition in_ll_scores :: "('x \<Rightarrow> 'a::linorder list) \<Rightarrow> nat \<Rightarrow> ('x \<times> nat) list \<Rightarrow> nat \<Rightarrow> pyerr + 'a list" where
  "in_ll_scores model n_batch_test dataset label_id =
     (case DataLoader n_batch_test dataset of
        Inl e \<Rightarrow> Inl e
      | Inr in_test_loader \<Rightarrow> calib_loop model label_id in_test_loader [])"

text \<open>
  \<^verbatim>\<open>thresh_idx = int(percentile * len(in_ll_list)); thresh = sorted(in_ll_list)[thresh_idx]\<close>
  (\<^verbatim>\<open>eval_robustness.py\<close> lines 89--90; \<^verbatim>\<open>eval_adv.py\<close> lines 76--79 with the
  percentiles 0.01 and 0.02).  The index is used as computed: nothing clamps it.
\<close>

definition percentile_thresh :: "rat \<Rightarrow> 'a::linorder list \<Rightarrow> pyerr + 'a" where
  "percentile_thresh percentile in_ll_list =
     (let thresh_idx = py_int (percentile * of_nat (length in_ll_list))
      in py_getitem (sort in_ll_list) thresh_idx)"

text \<open>The body of the loop over \<open>label_id\<close> for one class.\<close>

definition class_threshold :: "('x \<Rightarrow> 'a::linorder list) \<Rightarrow> nat \<Rightarrow> rat \<Rightarrow> ('x \<times> nat) list \<Rightarrow> nat \<Rightarrow> pyerr + 'a" where
  "class_threshold model n_batch_test percentile dataset label_id =
     (case in_ll_scores model n_batch_test dataset label_id of
        Inl e \<Rightarrow> Inl e
      | Inr in_ll_list \<Rightarrow> percentile_thresh percentile in_ll_list)"

text \<open>
  \<^verbatim>\<open>eval_robustness.py\<close> lines 71--92: the loop over \<^verbatim>\<open>range(hps.n_classes)\<close>.
  \<open>get_dataset label_id\<close> is the clean training data the dataset provider returns for
  that label.
\<close>

fun threshold_loop :: "('x \<Rightarrow> 'a::linorder list) \<Rightarrow> nat \<Rightarrow> rat \<Rightarrow> (nat \<Rightarrow> ('x \<times> nat) list) \<Rightarrow> nat list \<Rightarrow> 'a list \<Rightarrow> pyerr + 'a list" where
  "threshold_loop model n_batch_test percentile get_dataset [] threshold_list = Inr threshold_list"
| "threshold_loop model n_batch_test percentile get_dataset (label_id # rest) threshold_list =
     (case class_threshold model n_batch_test percentile (get_dataset label_id) label_id of
        Inl e \<Rightarrow> Inl e
      | Inr thresh \<Rightarrow>
          threshold_loop model n_batch_test percentile get_dataset rest (threshold_list @ [thresh]))"

definition get_thresholds :: "('x \<Rightarrow> 'a::linorder list) \<Rightarrow> nat \<Rightarrow> nat \<Rightarrow> rat \<Rightarrow> (nat \<Rightarrow> ('x \<times> nat) list) \<Rightarrow> pyerr + 'a list" where
  "get_thresholds model n_classes n_batch_test percentile get_dataset =
     threshold_loop model n_batch_test percentile get_dataset [0..<n_classes] []"

text \<open>
  \<^verbatim>\<open>eval_adv.py\<close> lines 57--81: the same loop with two thresholds per class, at the
  1st and the 2nd percentile, taken from one score list.
\<close>

fun threshold_loop_adv :: "('x \<Rightarrow> 'a::linorder list) \<Rightarrow> nat \<Rightarrow> (nat \<Rightarrow> ('x \<times> nat) list) \<Rightarrow> nat list \<Rightarrow> 'a list \<Rightarrow> 'a list \<Rightarrow> pyerr + ('a list \<times> 'a list)" where
  "threshold_loop_adv model n_batch_test get_dataset [] threshold_list1 threshold_list2 =
     Inr (threshold_list1, threshold_list2)"
| "threshold_loop_adv model n_batch_test get_dataset (label_id # rest) threshold_list1 threshold_list2 =
     (case in_ll_scores model n_batch_test (get_dataset label_id) label_id of
        Inl e \<Rightarrow> Inl e
      | Inr in_ll_list \<Rightarrow>
          (case percentile_thresh (1 / 100) in_ll_list of
             Inl e \<Rightarrow> Inl e
           | Inr thresh1 \<Rightarrow>
               (case percentile_thresh (2 / 100) in_ll_list of
                  Inl e \<Rightarrow> Inl e
                | Inr thresh2 \<Rightarrow>
                    threshold_loop_adv model n_batch_test get_dataset rest
                      (threshold_list1 @ [thresh1]) (threshold_list2 @ [thresh2]))))"

definition get_thresholds_adv :: "('x \<Rightarrow> 'a::linorder list) \<Rightarrow> nat \<Rightarrow> nat \<Rightarrow> (nat \<Rightarrow> ('x \<times> nat) list) \<Rightarrow> pyerr + ('a list \<times> 'a list)" where
  "get_thresholds_adv model n_classes n_batch_test get_dataset =
     threshold_loop_adv model n_batch_test get_dataset [0..<n_classes] [] []"

section \<open>The rejection decision\<close>

text \<open>
  \<^verbatim>\<open>values >= thresholds[pred]\<close> and \<^verbatim>\<open>values < thresholds[pred]\<close>
  (\<^verbatim>\<open>eval_robustness.py\<close> lines 122--123; \<^verbatim>\<open>eval_adv.py\<close> lines 133 and 136).
  The two masks are computed by two separate comparisons, as in the source.
\<close>

definition confidence_idx :: "'a::linorder list \<Rightarrow> 'a list \<Rightarrow> nat list \<Rightarrow> pyerr + bool list" where
  "confidence_idx thresholds vals pred =
     (case index_select thresholds pred of
        Inl e \<Rightarrow> Inl e
      | Inr thr \<Rightarrow> Inr (map2 (\<lambda>v t. v \<ge> t) vals thr))"

definition reject_idx :: "'a::linorder list \<Rightarrow> 'a list \<Rightarrow> nat list \<Rightarrow> pyerr + bool list" where
  "reject_idx thresholds vals pred =
     (case index_select thresholds pred of
        Inl e \<Rightarrow> Inl e
      | Inr thr \<Rightarrow> Inr (map2 (\<lambda>v t. v < t) vals thr))"

record counters =
  n_correct :: nat
  n_false :: nat
  n_reject :: nat

text \<open>
  One pass of the loop over the test loader, \<^verbatim>\<open>eval_robustness.py\<close> lines 114--127.
\<close>

definition batch_step :: "'a::linorder list \<Rightarrow> ('x \<Rightarrow> 'a list) \<Rightarrow> ('x \<times> nat) list \<Rightarrow> counters \<Rightarrow> pyerr + counters" where
  "batch_step thresholds sdim batch c =
     (let x = map fst batch; target = map snd batch; log_lik = map sdim x in
      case max_dim1 log_lik of
        Inl e \<Rightarrow> Inl e
      | Inr (vals, pred) \<Rightarrow>
          (case confidence_idx thresholds vals pred of
             Inl e \<Rightarrow> Inl e
           | Inr conf \<Rightarrow>
               (case reject_idx thresholds vals pred of
                  Inl e \<Rightarrow> Inl e
                | Inr rej \<Rightarrow>
                    Inr \<lparr> n_correct = n_correct c +
                            count_true (map2 (=) (mask_select conf pred) (mask_select conf target)),
                          n_false = n_false c +
                            count_true (map2 (\<noteq>) (mask_select conf pred) (mask_select conf target)),
                          n_reject = n_reject c + count_true rej \<rparr>)))"

fun test_loop :: "'a::linorder list \<Rightarrow> ('x \<Rightarrow> 'a list) \<Rightarrow> ('x \<times> nat) list list \<Rightarrow> counters \<Rightarrow> pyerr + counters" where
  "test_loop thresholds sdim [] c = Inr c"
| "test_loop thresholds sdim (b # bs) c =
     (case batch_step thresholds sdim b c of
        Inl e \<Rightarrow> Inl e
      | Inr c' \<Rightarrow> test_loop thresholds sdim bs c')"

section \<open>The corruption pipeline (\<^verbatim>\<open>eval_robustness.py\<close>)\<close>

text \<open>
  \<^verbatim>\<open>CorruptionDataset(x, y, transform)\<close>: the constructor asserts that both arrays have
  the same number of rows; an item is the transformed sample with its label.
\<close>

definition CorruptionDataset :: "'r list \<Rightarrow> nat list \<Rightarrow> ('r \<Rightarrow> 'x) \<Rightarrow> pyerr + ('x \<times> nat) list" where
  "CorruptionDataset x y transform =
     (if length x \<noteq> length y then Inl AssertionError
      else Inr (zip (map transform x) y))"

text \<open>Python true division \<^verbatim>\<open>a / b\<close>.\<close>

definition py_div :: "rat \<Rightarrow> rat \<Rightarrow> pyerr + rat" where
  "py_div a b = (if b = 0 then Inl ZeroDivisionError else Inr (a / b))"

text \<open>Array slicing \<^verbatim>\<open>xs[a:b]\<close> with \<open>0 \<le> a \<le> b\<close>: out-of-range bounds are cut, never an error.\<close>

definition py_slice :: "'b list \<Rightarrow> nat \<Rightarrow> nat \<Rightarrow> 'b list" where
  "py_slice xs a b = take (b - a) (drop a xs)"

record slice_report =
  acc :: rat
  false_rate :: rat
  reject_rate :: rat
  acc_remain :: rat

text \<open>Lines 107--127: the counters of one severity slice.\<close>

definition slice_counters :: "'a::linorder list \<Rightarrow> ('x \<Rightarrow> 'a list) \<Rightarrow> ('r \<Rightarrow> 'x) \<Rightarrow> nat \<Rightarrow> 'r list \<Rightarrow> nat list \<Rightarrow> pyerr + counters" where
  "slice_counters thresholds sdim transform n_batch_test x_severity y_severity =
     (case CorruptionDataset x_severity y_severity transform of
        Inl e \<Rightarrow> Inl e
      | Inr dataset \<Rightarrow>
          (case DataLoader n_batch_test dataset of
             Inl e \<Rightarrow> Inl e
           | Inr test_loader \<Rightarrow>
               test_loop thresholds sdim test_loader
                 \<lparr> n_correct = 0, n_false = 0, n_reject = 0 \<rparr>))"

text \<open>
  Lines 129--134: the rates of one slice.  They are printed (lines 136--137) only after
  all four have been computed.
\<close>

definition slice_rates :: "counters \<Rightarrow> nat \<Rightarrow> pyerr + slice_report" where
  "slice_rates c n =
     (case py_div (of_nat (n_correct c)) (of_nat n) of
        Inl e \<Rightarrow> Inl e
      | Inr acc' \<Rightarrow>
          (case py_div (of_nat (n_false c)) (of_nat n) of
             Inl e \<Rightarrow> Inl e
           | Inr false_rate' \<Rightarrow>
               (case py_div (of_nat (n_reject c)) (of_nat n) of
                  Inl e \<Rightarrow> Inl e
                | Inr reject_rate' \<Rightarrow>
                    (case py_div acc' (acc' + false_rate') of
                       Inl e \<Rightarrow> Inl e
                     | Inr acc_remain' \<Rightarrow>
                         Inr \<lparr> acc = acc', false_rate = false_rate',
                               reject_rate = reject_rate', acc_remain = acc_remain' \<rparr>))))"

text \<open>Lines 104--137: one pass of the loop over \<^verbatim>\<open>range(5)\<close>.\<close>

definition eval_severity :: "'a::linorder list \<Rightarrow> ('x \<Rightarrow> 'a list) \<Rightarrow> ('r \<Rightarrow> 'x) \<Rightarrow> nat \<Rightarrow> 'r list \<Rightarrow> nat list \<Rightarrow> nat \<Rightarrow> pyerr + slice_report" where
  "eval_severity thresholds sdim transform n_batch_test data labels severity =
     (let interval = 10000;
          x_severity = py_slice data (severity * interval) ((severity + 1) * interval);
          y_severity = py_slice labels (severity * interval) ((severity + 1) * interval)
      in case slice_counters thresholds sdim transform n_batch_test x_severity y_severity of
           Inl e \<Rightarrow> Inl e
         | Inr c \<Rightarrow> slice_rates c (length x_severity))"

text \<open>
  The loop over the severities.  The second component is the exception that ended the
  loop, if any; the first is what had been printed by then.
\<close>

fun severity_loop :: "'a::linorder list \<Rightarrow> ('x \<Rightarrow> 'a list) \<Rightarrow> ('r \<Rightarrow> 'x) \<Rightarrow> nat \<Rightarrow> 'r list \<Rightarrow> nat list \<Rightarrow> nat list \<Rightarrow> slice_report list \<Rightarrow> slice_report list \<times> pyerr option" where
  "severity_loop thresholds sdim transform n_batch_test data labels [] printed = (printed, None)"
| "severity_loop thresholds sdim transform n_batch_test data labels (severity # rest) printed =
     (case eval_severity thresholds sdim transform n_batch_test data labels severity of
        Inl e \<Rightarrow> (printed, Some e)
      | Inr r \<Rightarrow>
          severity_loop thresholds sdim transform n_batch_test data labels rest (printed @ [r]))"

text \<open>
  The values that travel from \<^verbatim>\<open>get_c_dataset\<close> to the loop header: file names, the
  loaded arrays, and tuples of them.
\<close>

datatype 'r pyobj =
    Str string
  | Array "'r list"
  | Labels "nat list"
  | Tuple "'r pyobj list"

text \<open>
  Unpacking into \<open>n\<close> targets.  A tuple must have exactly \<open>n\<close> items
  (\<^verbatim>\<open>ValueError\<close> otherwise).  The generator only ever yields tuples, so unpacking of
  other iterables is not modelled.
\<close>

definition unpack :: "nat \<Rightarrow> 'r pyobj \<Rightarrow> pyerr + 'r pyobj list" where
  "unpack n obj =
     (case obj of
        Tuple items \<Rightarrow> if length items = n then Inr items else Inl ValueError
      | _ \<Rightarrow> Inl TypeError)"

text \<open>\<^verbatim>\<open>file.split('.')[0]\<close>: the part of the name before its first dot.\<close>

definition split_dot0 :: "string \<Rightarrow> string" where
  "split_dot0 file = takeWhile (\<lambda>ch. ch \<noteq> CHR ''.'') file"

text \<open>
  \<^verbatim>\<open>get_c_dataset\<close> (lines 29--35) is a generator.  Its run is the list of what each
  \<^verbatim>\<open>next\<close> produces: a yielded 3-tuple \<^verbatim>\<open>(name, array, labels)\<close>, or the exception
  that ends it.  The directory listing and \<^verbatim>\<open>np.load\<close> are the file system's; the
  label file is loaded from \<^verbatim>\<open>dir/labels.npy\<close>, each data file from its bare name.
\<close>

definition get_c_dataset :: "(string \<Rightarrow> string list) \<Rightarrow> (string \<Rightarrow> pyerr + 'r pyobj) \<Rightarrow> string \<Rightarrow> (pyerr + 'r pyobj) list" where
  "get_c_dataset listdir np_load dir =
     (let files = filter (\<lambda>file. file \<noteq> ''labels.npy'') (listdir dir) in
      case np_load (dir @ ''/'' @ ''labels.npy'') of
        Inl e \<Rightarrow> [Inl e]
      | Inr y \<Rightarrow>
          map (\<lambda>file. case np_load file of
                         Inl e \<Rightarrow> Inl e
                       | Inr d \<Rightarrow> Inr (Tuple [Str (split_dot0 file), d, y])) files)"

text \<open>
  The loop header of line 100,
  \<^verbatim>\<open>for corruption_id, (corruption_type, data, labels) in get_c_dataset():\<close>
  unpacks every item into two targets and the second of them into three.
\<close>

definition unpack_target :: "'r pyobj \<Rightarrow> pyerr + ('r pyobj \<times> 'r pyobj \<times> 'r pyobj \<times> 'r pyobj)" where
  "unpack_target item =
     (case unpack 2 item of
        Inl e \<Rightarrow> Inl e
      | Inr outer \<Rightarrow>
          (case unpack 3 (outer ! 1) of
             Inl e \<Rightarrow> Inl e
           | Inr inner \<Rightarrow> Inr (outer ! 0, inner ! 0, inner ! 1, inner ! 2)))"

text \<open>How a run of the script ends.\<close>

datatype 'r outcome = Raised pyerr | Exited int | Returned 'r

text \<open>
  Lines 100--140.  The body ends with \<^verbatim>\<open>exit(0)\<close>, so no second item is ever taken
  from the generator; the \<^verbatim>\<open>return\<close> of line 140 is reached only when the generator
  yields nothing, and then its variables were never assigned.  The result is the list
  of slice reports printed and the way the run ended.
\<close>

fun corruption_loop :: "'a::linorder list \<Rightarrow> ('x \<Rightarrow> 'a list) \<Rightarrow> ('r \<Rightarrow> 'x) \<Rightarrow> nat \<Rightarrow> (pyerr + 'r pyobj) list \<Rightarrow> slice_report list \<times> (rat \<times> rat \<times> rat) outcome" where
  "corruption_loop thresholds sdim transform n_batch_test [] = ([], Raised UnboundLocalError)"
| "corruption_loop thresholds sdim transform n_batch_test (Inl e # rest) = ([], Raised e)"
| "corruption_loop thresholds sdim transform n_batch_test (Inr item # rest) =
     (case unpack_target item of
        Inl e \<Rightarrow> ([], Raised e)
      | Inr (corruption_id, corruption_type, data_obj, labels_obj) \<Rightarrow>
          (case (data_obj, labels_obj) of
             (Array data, Labels labels) \<Rightarrow>
               (case severity_loop thresholds sdim transform n_batch_test data labels [0..<5] [] of
                  (printed, Some e) \<Rightarrow> (printed, Raised e)
                | (printed, None) \<Rightarrow> (printed, Exited 0))
           | _ \<Rightarrow> ([], Raised TypeError)))"

text \<open>\<^verbatim>\<open>inference_rejection\<close>: calibration (lines 71--92), then the evaluation loop.\<close>

definition inference_rejection :: "('x \<Rightarrow> 'a::linorder list) \<Rightarrow> ('r \<Rightarrow> 'x) \<Rightarrow> nat \<Rightarrow> nat \<Rightarrow> rat \<Rightarrow> (nat \<Rightarrow> ('x \<times> nat) list) \<Rightarrow> (string \<Rightarrow> string list) \<Rightarrow> (string \<Rightarrow> pyerr + 'r pyobj) \<Rightarrow> slice_report list \<times> (rat \<times> rat \<times> rat) outcome" where
  "inference_rejection sdim transform n_classes n_batch_test percentile get_dataset listdir np_load =
     (case get_thresholds sdim n_classes n_batch_test percentile get_dataset of
        Inl e \<Rightarrow> ([], Raised e)
      | Inr threshold_list \<Rightarrow>
          corruption_loop threshold_list sdim transform n_batch_test
            (get_c_dataset listdir np_load ''data/CIFAR-10-C''))"

section \<open>The adversarial pipeline (\<^verbatim>\<open>eval_adv.py\<close>)\<close>

record adv_counters =
  n_eval :: nat
  n_successful_adv :: nat
  n_rejected_adv1 :: nat
  n_rejected_adv2 :: nat

text \<open>
  Lines 113--137: the body of the loop over the test loader.  \<open>attack\<close> is the attack
  oracle \<^verbatim>\<open>attack.generate\<close>, a function from a batch of inputs to a batch of inputs.
\<close>

definition adv_batch :: "'a::linorder list \<Rightarrow> 'a list \<Rightarrow> ('x \<Rightarrow> 'a list) \<Rightarrow> ('x list \<Rightarrow> 'x list) \<Rightarrow> ('x \<times> nat) list \<Rightarrow> adv_counters \<Rightarrow> pyerr + adv_counters" where
  "adv_batch thresholds1 thresholds2 model attack batch c =
     (let x = map fst batch; y = map snd batch; output = map model x in
      case argmax_dim1 output of
        Inl e \<Rightarrow> Inl e
      | Inr pred \<Rightarrow>
          let correct_idx = map2 (=) pred y;
              x' = mask_select correct_idx x;
              y' = mask_select correct_idx y;
              adv_x = attack x';
              output' = map model adv_x
          in (case max_dim1 output' of
                Inl e \<Rightarrow> Inl e
              | Inr (logits, preds) \<Rightarrow>
                  (case broadcast2 (\<noteq>) preds y' of
                     Inl e \<Rightarrow> Inl e
                   | Inr success_idx \<Rightarrow>
                       (case reject_idx thresholds1 logits preds of
                          Inl e \<Rightarrow> Inl e
                        | Inr rej_idx1 \<Rightarrow>
                            (case reject_idx thresholds2 logits preds of
                               Inl e \<Rightarrow> Inl e
                             | Inr rej_idx2 \<Rightarrow>
                                 Inr \<lparr> n_eval = n_eval c + count_true correct_idx,
                                       n_successful_adv = n_successful_adv c + count_true success_idx,
                                       n_rejected_adv1 = n_rejected_adv1 c + count_true rej_idx1,
                                       n_rejected_adv2 = n_rejected_adv2 c + count_true rej_idx2 \<rparr>)))))"

text \<open>Lines 111--139: the loop ends with \<^verbatim>\<open>break\<close>, so only the first batch is processed.\<close>

definition adv_loop :: "'a::linorder list \<Rightarrow> 'a list \<Rightarrow> ('x \<Rightarrow> 'a list) \<Rightarrow> ('x list \<Rightarrow> 'x list) \<Rightarrow> ('x \<times> nat) list list \<Rightarrow> adv_counters \<Rightarrow> pyerr + adv_counters" where
  "adv_loop thresholds1 thresholds2 model attack test_loader c =
     (case test_loader of
        [] \<Rightarrow> Inr c
      | batch # rest \<Rightarrow> adv_batch thresholds1 thresholds2 model attack batch c)"

record adv_report =
  counts :: adv_counters
  reject_rate1 :: rat
  reject_rate2 :: rat
  success_adv_rate :: rat

text \<open>Lines 141--146: the three rates, in the order the source computes them.\<close>

definition adv_rates :: "adv_counters \<Rightarrow> pyerr + adv_report" where
  "adv_rates c =
     (case py_div (of_nat (n_rejected_adv1 c)) (of_nat (n_successful_adv c)) of
        Inl e \<Rightarrow> Inl e
      | Inr rr1 \<Rightarrow>
          (case py_div (of_nat (n_rejected_adv2 c)) (of_nat (n_successful_adv c)) of
             Inl e \<Rightarrow> Inl e
           | Inr rr2 \<Rightarrow>
               (case py_div (of_nat (n_successful_adv c)) (of_nat (n_eval c)) of
                  Inl e \<Rightarrow> Inl e
                | Inr sr \<Rightarrow>
                    Inr \<lparr> counts = c, reject_rate1 = rr1, reject_rate2 = rr2,
                          success_adv_rate = sr \<rparr>)))"

text \<open>
  Lines 85--139: the counters at the end of the evaluation loop, for given thresholds.
\<close>

definition adv_counts :: "'a::linorder list \<Rightarrow> 'a list \<Rightarrow> ('x \<Rightarrow> 'a list) \<Rightarrow> ('x list \<Rightarrow> 'x list) \<Rightarrow> nat \<Rightarrow> ('x \<times> nat) list \<Rightarrow> pyerr + adv_counters" where
  "adv_counts thresholds1 thresholds2 model attack n_batch_test test_set =
     (case DataLoader n_batch_test test_set of
        Inl e \<Rightarrow> Inl e
      | Inr test_loader \<Rightarrow>
          adv_loop thresholds1 thresholds2 model attack test_loader
            \<lparr> n_eval = 0, n_successful_adv = 0, n_rejected_adv1 = 0, n_rejected_adv2 = 0 \<rparr>)"

text \<open>
  \<^verbatim>\<open>attack_run_rejection_policy\<close>: calibration, evaluation of the first test batch,
  final rates.  \<open>train_set label_id\<close> and \<open>test_set\<close> are what the dataset provider
  returns for the training data of one label and for the test split.
\<close>

definition attack_run_rejection_policy :: "('x \<Rightarrow> 'a::linorder list) \<Rightarrow> ('x list \<Rightarrow> 'x list) \<Rightarrow> nat \<Rightarrow> nat \<Rightarrow> (nat \<Rightarrow> ('x \<times> nat) list) \<Rightarrow> ('x \<times> nat) list \<Rightarrow> pyerr + adv_report" where
  "attack_run_rejection_policy model attack n_classes n_batch_test train_set test_set =
     (case get_thresholds_adv model n_classes n_batch_test train_set of
        Inl e \<Rightarrow> Inl e
      | Inr (threshold_list1, threshold_list2) \<Rightarrow>
          (case adv_counts threshold_list1 threshold_list2 model attack n_batch_test test_set of
             Inl e \<Rightarrow> Inl e
           | Inr c \<Rightarrow> adv_rates c))"

section \<open>Reference definitions\<close>


definition spec_kth_smallest :: "'a::linorder list \<Rightarrow> nat \<Rightarrow> 'a \<Rightarrow> bool" where
  "spec_kth_smallest S k t \<longleftrightarrow>
     t \<in> set S \<and> length (filter (\<lambda>s. s < t) S) \<le> k \<and> k < length (filter (\<lambda>s. s \<le> t) S)"

text \<open>
  The rejection rule of the specification for one sample: the score at the predicted
  class is strictly below the threshold of the predicted class.
\<close>

definition spec_rejected :: "'a::linorder list \<Rightarrow> 'a list \<Rightarrow> bool" where
  "spec_rejected thresholds scores \<longleftrightarrow>
     scores ! argmax_row scores < thresholds ! argmax_row scores"




text \<open>
  A batch is well shaped for a threshold vector when every score vector is non-empty and
  its predicted class has a threshold.
\<close>

definition well_shaped :: "'a::linorder list \<Rightarrow> ('x \<Rightarrow> 'a list) \<Rightarrow> ('x \<times> nat) list \<Rightarrow> bool" where
  "well_shaped thresholds sdim batch \<longleftrightarrow>
     list_all (\<lambda>s. sdim (fst s) \<noteq> [] \<and> argmax_row (sdim (fst s)) < length thresholds) batch"

text \<open>
  The samples of a batch that the clean model classifies correctly, and the pairs of an
  adversarial input and a true label for which the attack succeeded.
\<close>

definition spec_retained :: "('x \<Rightarrow> 'a::linorder list) \<Rightarrow> ('x \<times> nat) list \<Rightarrow> ('x \<times> nat) list" where
  "spec_retained model batch = filter (\<lambda>(x, y). argmax_row (model x) = y) batch"

definition spec_successful :: "('x \<Rightarrow> 'a::linorder list) \<Rightarrow> 'x list \<Rightarrow> nat list \<Rightarrow> ('x \<times> nat) list" where
  "spec_successful model adv_x y = filter (\<lambda>(x', y). argmax_row (model x') \<noteq> y) (zip adv_x y)"

section \<open>Auxiliary facts\<close>

lemma row_max_from_inv:
  assumes "length pre = i" and "bi < i" and "pre ! bi = best"
    and "\<forall>v\<in>set pre. v \<le> best" and "\<forall>k<bi. pre ! k < best"
  shows "snd (row_max_from best bi i vs) < length (pre @ vs) \<and>
         (pre @ vs) ! snd (row_max_from best bi i vs) = fst (row_max_from best bi i vs) \<and>
         (\<forall>v\<in>set (pre @ vs). v \<le> fst (row_max_from best bi i vs)) \<and>
         (\<forall>k<snd (row_max_from best bi i vs). (pre @ vs) ! k < fst (row_max_from best bi i vs))"
  using assms
proof (induction vs arbitrary: best bi i pre)
  case Nil
  then show ?case by simp
next
  case (Cons v vs)
  show ?case
  proof (cases "best < v")
    case True
    have a: "length (pre @ [v]) = Suc i" using Cons.prems by simp
    have b: "i < Suc i" by simp
    have c: "(pre @ [v]) ! i = v" unfolding Cons.prems(1) [symmetric] by simp
    have d: "\<forall>w\<in>set (pre @ [v]). w \<le> v" using Cons.prems True by auto
    have e: "\<forall>k<i. (pre @ [v]) ! k < v"
    proof (intro allI impI)
      fix k assume "k < i"
      then have "pre ! k \<in> set pre" using Cons.prems by simp
      then have "pre ! k \<le> best" using Cons.prems by blast
      then have "pre ! k < v" using True by simp
      moreover have "(pre @ [v]) ! k = pre ! k" using \<open>k < i\<close> Cons.prems(1) by (simp add: nth_append)
      ultimately show "(pre @ [v]) ! k < v" by simp
    qed
    from Cons.IH [OF a b c d e] True show ?thesis by simp
  next
    case False
    have a: "length (pre @ [v]) = Suc i" using Cons.prems by simp
    have b: "bi < Suc i" using Cons.prems by simp
    have c: "(pre @ [v]) ! bi = best" using Cons.prems by (simp add: nth_append)
    have d: "\<forall>w\<in>set (pre @ [v]). w \<le> best" using Cons.prems False by auto
    have e: "\<forall>k<bi. (pre @ [v]) ! k < best" using Cons.prems by (simp add: nth_append)
    from Cons.IH [OF a b c d e] False show ?thesis by simp
  qed
qed

lemma row_max_props:
  assumes "row \<noteq> []"
  shows "argmax_row row < length row"
    and "row ! argmax_row row = fst (row_max row)"
    and "\<forall>v\<in>set row. v \<le> row ! argmax_row row"
    and "\<forall>k<argmax_row row. row ! k < row ! argmax_row row"
proof -
  obtain v vs where row: "row = v # vs" using assms by (cases row) auto
  have "length [v] = 1" "(0::nat) < 1" "[v] ! 0 = v" "\<forall>w\<in>set [v]. w \<le> v" "\<forall>k<(0::nat). [v] ! k < v"
    by simp_all
  from row_max_from_inv [OF this, of vs]
  have *: "snd (row_max row) < length row \<and> row ! snd (row_max row) = fst (row_max row) \<and>
       (\<forall>w\<in>set row. w \<le> fst (row_max row)) \<and> (\<forall>k<snd (row_max row). row ! k < fst (row_max row))"
    by (simp add: row)
  show "argmax_row row < length row" using * by (simp add: argmax_row_def)
  show "row ! argmax_row row = fst (row_max row)" using * by (simp add: argmax_row_def)
  show "\<forall>v\<in>set row. v \<le> row ! argmax_row row" using * by (simp add: argmax_row_def)
  show "\<forall>k<argmax_row row. row ! k < row ! argmax_row row" using * by (simp add: argmax_row_def)
qed

lemma row_max_Max:
  assumes "row \<noteq> []"
  shows "row ! argmax_row row = Max (set row)"
proof -
  have "row ! argmax_row row \<in> set row" using row_max_props(1) [OF assms] by simp
  moreover have "\<forall>v\<in>set row. v \<le> row ! argmax_row row" using row_max_props(3) [OF assms] .
  ultimately show ?thesis by (metis List.finite_set Max_eqI)
qed

lemma batches_Nil: "batches n [] = []"
  by (simp add: batches.simps)

lemma batches_step: "0 < n \<Longrightarrow> xs \<noteq> [] \<Longrightarrow> batches n xs = take n xs # batches n (drop n xs)"
  by (subst batches.simps) simp


lemma batches_nonempty: "b \<in> set (batches n xs) \<Longrightarrow> b \<noteq> []"
proof (induction n xs rule: batches.induct)
  case (1 n xs)
  show ?case
  proof (cases "n = 0 \<or> xs = []")
    case True
    with 1 show ?thesis by (simp add: batches.simps)
  next
    case False
    then have "batches n xs = take n xs # batches n (drop n xs)" by (simp add: batches_step)
    with 1 False show ?thesis by auto
  qed
qed












lemma spec_kth_smallest_unique:
  assumes "spec_kth_smallest S k t" and "spec_kth_smallest S k t'"
  shows "t = t'"
proof -
  have aux: False if a: "spec_kth_smallest S k u" and b: "spec_kth_smallest S k w" and lt: "u < w" for u w
  proof -
    have "length (filter (\<lambda>s. s \<le> u) S) \<le> length (filter (\<lambda>s. s < w) S)"
    proof -
      have "filter (\<lambda>s. s \<le> u) S = filter (\<lambda>s. s \<le> u) (filter (\<lambda>s. s < w) S)"
        using lt by (auto intro: filter_cong)
      then show ?thesis by (metis length_filter_le)
    qed
    with a b show False by (simp add: spec_kth_smallest_def)
  qed
  show ?thesis using aux [OF assms] aux [OF assms(2) assms(1)] by (meson not_less_iff_gr_or_eq)
qed



lemma max_dim1_Inr:
  assumes "max_dim1 rows = Inr (vals, pred)"
  shows "[] \<notin> set rows" and "vals = map (\<lambda>r. fst (row_max r)) rows" and "pred = map argmax_row rows"
  using assms by (auto simp: max_dim1_def split: if_splits)

lemma index_select_Inr:
  assumes "index_select thresholds pred = Inr thr"
  shows "\<forall>j\<in>set pred. j < length thresholds" and "thr = map (\<lambda>j. thresholds ! j) pred"
  using assms by (auto simp: index_select_def list_ex_iff split: if_splits)

lemma map2_map_map: "map2 f (map g xs) (map h xs) = map (\<lambda>x. f (g x) (h x)) xs"
  by (induction xs) simp_all

lemma count_true_map: "count_true (map P xs) = length (filter P xs)"
  by (induction xs) (simp_all add: count_true_def)



lemma decision_masks:
  assumes m: "max_dim1 (map sdim (map fst batch)) = Inr (vals, pred)"
    and c: "confidence_idx thresholds vals pred = Inr conf"
    and r: "reject_idx thresholds vals pred = Inr rej"
  shows "conf = map (\<lambda>s. \<not> spec_rejected thresholds (sdim (fst s))) batch"
    and "rej = map (\<lambda>s. spec_rejected thresholds (sdim (fst s))) batch"
    and "pred = map (\<lambda>s. argmax_row (sdim (fst s))) batch"
    and "well_shaped thresholds sdim batch"
proof -
  note mm = max_dim1_Inr [OF m]
  have ne: "sdim (fst s) \<noteq> []" if "s \<in> set batch" for s
  proof
    assume e: "sdim (fst s) = []"
    have "sdim (fst s) \<in> sdim ` fst ` set batch" using that by (intro imageI)
    then have "[] \<in> set (map sdim (map fst batch))" by (simp only: e set_map)
    then show False using mm(1) by simp
  qed
  have v: "fst (row_max (sdim (fst s))) = sdim (fst s) ! argmax_row (sdim (fst s))"
    if "s \<in> set batch" for s
    using row_max_props(2) [OF ne [OF that]] by simp
  show p: "pred = map (\<lambda>s. argmax_row (sdim (fst s))) batch" using mm(3) by (simp add: comp_def)
  have vals: "vals = map (\<lambda>s. sdim (fst s) ! argmax_row (sdim (fst s))) batch"
    using mm(2) v by (simp add: comp_def)
  obtain thr where thr: "index_select thresholds pred = Inr thr"
    using r by (cases "index_select thresholds pred") (simp_all add: reject_idx_def)
  note ii = index_select_Inr [OF thr]
  have thr': "thr = map (\<lambda>s. thresholds ! argmax_row (sdim (fst s))) batch"
    using ii(2) p by (simp add: comp_def)
  show "rej = map (\<lambda>s. spec_rejected thresholds (sdim (fst s))) batch"
    using r thr by (simp add: reject_idx_def vals thr' map2_map_map spec_rejected_def)
  show "conf = map (\<lambda>s. \<not> spec_rejected thresholds (sdim (fst s))) batch"
    using c thr by (simp add: confidence_idx_def vals thr' map2_map_map spec_rejected_def not_less)
  show "well_shaped thresholds sdim batch"
    using ii(1) ne by (auto simp: well_shaped_def list_all_iff p)
qed








lemma mask_select_map: "mask_select (map P xs) (map g xs) = map g (filter P xs)"
  by (induction xs) (simp_all add: mask_select_def)

lemma argmax_dim1_Inr:
  assumes "argmax_dim1 rows = Inr pred"
  shows "[] \<notin> set rows" and "pred = map argmax_row rows"
  using assms by (auto simp: argmax_dim1_def split: if_splits)

lemma reject_count:
  assumes m: "max_dim1 (map model adv_x) = Inr (logits, preds)"
    and r: "reject_idx thresholds logits preds = Inr rej"
  shows "count_true rej = length (filter (\<lambda>x'. spec_rejected thresholds (model x')) adv_x)"
proof -
  let ?batch = "map (\<lambda>x'. (x', 0::nat)) adv_x"
  have rows: "map model (map fst ?batch) = map model adv_x" by (simp add: comp_def)
  have m': "max_dim1 (map model (map fst ?batch)) = Inr (logits, preds)" using m by (simp only: rows)
  obtain thr where "index_select thresholds preds = Inr thr"
    using r by (cases "index_select thresholds preds") (simp_all add: reject_idx_def)
  then obtain conf where c: "confidence_idx thresholds logits preds = Inr conf"
    by (simp add: confidence_idx_def)
  have "rej = map (\<lambda>s. spec_rejected thresholds (model (fst s))) ?batch"
    by (rule decision_masks(2) [OF m' c r])
  then have "rej = map (\<lambda>x'. spec_rejected thresholds (model x')) adv_x" by (simp add: comp_def)
  then show ?thesis by (simp only: count_true_map)
qed

lemma success_count:
  assumes "length adv_x = length y"
  shows "broadcast2 (\<noteq>) (map argmax_row (map model adv_x)) y =
           Inr (map (\<lambda>(x', y). argmax_row (model x') \<noteq> y) (zip adv_x y))"
proof -
  have "map2 (\<noteq>) (map argmax_row (map model adv_x)) y =
          map (\<lambda>(x', y). argmax_row (model x') \<noteq> y) (zip adv_x y)"
    using assms by (induction adv_x y rule: list_induct2) simp_all
  then show ?thesis using assms by (simp add: broadcast2_def)
qed

lemma adv_batch_Inr:
  assumes "adv_batch thresholds1 thresholds2 model attack batch c = Inr c'"
  shows "n_eval c' = n_eval c + length (spec_retained model batch)"
    and "n_rejected_adv1 c' = n_rejected_adv1 c +
           length (filter (\<lambda>x'. spec_rejected thresholds1 (model x'))
                     (attack (map fst (spec_retained model batch))))"
    and "n_rejected_adv2 c' = n_rejected_adv2 c +
           length (filter (\<lambda>x'. spec_rejected thresholds2 (model x'))
                     (attack (map fst (spec_retained model batch))))"
    and "length (attack (map fst (spec_retained model batch))) = length (spec_retained model batch) \<Longrightarrow>
         n_successful_adv c' = n_successful_adv c +
           length (spec_successful model (attack (map fst (spec_retained model batch)))
                     (map snd (spec_retained model batch)))"
proof -
  let ?x = "map fst batch" and ?y = "map snd batch"
  let ?P = "\<lambda>s. argmax_row (model (fst s)) = snd s"
  have ret: "spec_retained model batch = filter ?P batch"
    by (simp add: spec_retained_def case_prod_unfold)
  obtain pred where p: "argmax_dim1 (map model ?x) = Inr pred"
    using assms by (cases "argmax_dim1 (map model ?x)") (auto simp: adv_batch_def Let_def)
  have pred: "pred = map (\<lambda>s. argmax_row (model (fst s))) batch"
    using argmax_dim1_Inr(2) [OF p] by (simp add: comp_def)
  have ci: "map2 (=) pred ?y = map ?P batch" unfolding pred by (rule map2_map_map)
  have x': "mask_select (map2 (=) pred ?y) ?x = map fst (spec_retained model batch)"
    unfolding ci ret by (rule mask_select_map)
  have y': "mask_select (map2 (=) pred ?y) ?y = map snd (spec_retained model batch)"
    unfolding ci ret by (rule mask_select_map)
  have ne: "count_true (map2 (=) pred ?y) = length (spec_retained model batch)"
    unfolding ci ret by (rule count_true_map)
  let ?adv = "attack (map fst (spec_retained model batch))"
  let ?y' = "map snd (spec_retained model batch)"
  have step: "(case max_dim1 (map model ?adv) of
                Inl e \<Rightarrow> Inl e
              | Inr (logits, preds) \<Rightarrow>
                  (case broadcast2 (\<noteq>) preds ?y' of
                     Inl e \<Rightarrow> Inl e
                   | Inr success_idx \<Rightarrow>
                       (case reject_idx thresholds1 logits preds of
                          Inl e \<Rightarrow> Inl e
                        | Inr rej_idx1 \<Rightarrow>
                            (case reject_idx thresholds2 logits preds of
                               Inl e \<Rightarrow> Inl e
                             | Inr rej_idx2 \<Rightarrow>
                                 Inr \<lparr> n_eval = n_eval c + length (spec_retained model batch),
                                       n_successful_adv = n_successful_adv c + count_true success_idx,
                                       n_rejected_adv1 = n_rejected_adv1 c + count_true rej_idx1,
                                       n_rejected_adv2 = n_rejected_adv2 c + count_true rej_idx2 \<rparr>)))) = Inr c'"
    using assms unfolding adv_batch_def Let_def by (simp only: p sum.case x' y' ne)
  obtain logits preds where m: "max_dim1 (map model ?adv) = Inr (logits, preds)"
    using step by (cases "max_dim1 (map model ?adv)") auto
  obtain success_idx where b: "broadcast2 (\<noteq>) preds ?y' = Inr success_idx"
    using step m by (cases "broadcast2 (\<noteq>) preds ?y'") auto
  obtain rej_idx1 where r1: "reject_idx thresholds1 logits preds = Inr rej_idx1"
    using step m b by (cases "reject_idx thresholds1 logits preds") auto
  obtain rej_idx2 where r2: "reject_idx thresholds2 logits preds = Inr rej_idx2"
    using step m b r1 by (cases "reject_idx thresholds2 logits preds") auto
  have c': "c' = \<lparr> n_eval = n_eval c + length (spec_retained model batch),
                  n_successful_adv = n_successful_adv c + count_true success_idx,
                  n_rejected_adv1 = n_rejected_adv1 c + count_true rej_idx1,
                  n_rejected_adv2 = n_rejected_adv2 c + count_true rej_idx2 \<rparr>"
    using step m b r1 r2 by simp
  show "n_eval c' = n_eval c + length (spec_retained model batch)" by (simp add: c')
  show "n_rejected_adv1 c' = n_rejected_adv1 c +
           length (filter (\<lambda>x'. spec_rejected thresholds1 (model x')) ?adv)"
    using reject_count [OF m r1] by (simp add: c')
  show "n_rejected_adv2 c' = n_rejected_adv2 c +
           length (filter (\<lambda>x'. spec_rejected thresholds2 (model x')) ?adv)"
    using reject_count [OF m r2] by (simp add: c')
  assume len: "length ?adv = length (spec_retained model batch)"
  have preds: "preds = map argmax_row (map model ?adv)" by (rule max_dim1_Inr(3) [OF m])
  have "length ?adv = length ?y'" using len by simp
  from success_count [OF this, of model] b
  have "success_idx = map (\<lambda>(x', y). argmax_row (model x') \<noteq> y) (zip ?adv ?y')"
    by (simp only: preds [symmetric]) simp
  then have "count_true success_idx = length (spec_successful model ?adv ?y')"
    by (simp only: count_true_map spec_successful_def)
  then show "n_successful_adv c' = n_successful_adv c + length (spec_successful model ?adv ?y')"
    by (simp add: c')
qed

lemma adv_rates_Inr:
  assumes "adv_rates c = Inr rep"
  shows "counts rep = c" and "n_successful_adv c \<noteq> 0" and "n_eval c \<noteq> 0"
    and "reject_rate1 rep = rat_of_nat (n_rejected_adv1 c) / rat_of_nat (n_successful_adv c)"
    and "reject_rate2 rep = rat_of_nat (n_rejected_adv2 c) / rat_of_nat (n_successful_adv c)"
    and "success_adv_rate rep = rat_of_nat (n_successful_adv c) / rat_of_nat (n_eval c)"
  using assms by (auto simp: adv_rates_def py_div_def split: if_splits)

lemma adv_rates_zero: "n_successful_adv c = 0 \<Longrightarrow> adv_rates c = Inl ZeroDivisionError"
  by (simp add: adv_rates_def py_div_def)

lemma adv_counts_cases:
  assumes "adv_counts thresholds1 thresholds2 model attack n_batch_test test_set = Inr c"
  shows "(test_set = [] \<and>
          c = \<lparr> n_eval = 0, n_successful_adv = 0, n_rejected_adv1 = 0, n_rejected_adv2 = 0 \<rparr>) \<or>
         (test_set \<noteq> [] \<and>
          adv_batch thresholds1 thresholds2 model attack (take n_batch_test test_set)
            \<lparr> n_eval = 0, n_successful_adv = 0, n_rejected_adv1 = 0, n_rejected_adv2 = 0 \<rparr> = Inr c)"
proof -
  have n: "0 < n_batch_test"
    using assms by (auto simp: adv_counts_def DataLoader_def split: if_splits)
  show ?thesis
  proof (cases "test_set = []")
    case True
    then show ?thesis
      using assms n by (simp add: adv_counts_def DataLoader_def adv_loop_def batches_Nil)
  next
    case False
    then show ?thesis
      using assms n by (simp add: adv_counts_def DataLoader_def adv_loop_def batches_step [OF n False])
  qed
qed

lemma attack_run_Inr:
  assumes "attack_run_rejection_policy model attack n_classes n_batch_test train_set test_set = Inr rep"
  shows "\<exists>t1 t2. get_thresholds_adv model n_classes n_batch_test train_set = Inr (t1, t2) \<and>
           adv_counts t1 t2 model attack n_batch_test test_set = Inr (counts rep) \<and>
           adv_rates (counts rep) = Inr rep"
proof -
  obtain t1 t2 where t: "get_thresholds_adv model n_classes n_batch_test train_set = Inr (t1, t2)"
    using assms
    by (cases "get_thresholds_adv model n_classes n_batch_test train_set")
      (auto simp: attack_run_rejection_policy_def)
  obtain c where c: "adv_counts t1 t2 model attack n_batch_test test_set = Inr c"
    using assms t
    by (cases "adv_counts t1 t2 model attack n_batch_test test_set")
      (auto simp: attack_run_rejection_policy_def)
  have r: "adv_rates c = Inr rep" using assms t c by (simp add: attack_run_rejection_policy_def)
  have "counts rep = c" by (rule adv_rates_Inr(1) [OF r])
  with t c r show ?thesis by blast
qed

lemma unpack_target_triple: "unpack_target (Tuple [a, b, c]) = Inl ValueError"
  by (simp add: unpack_target_def unpack_def)

lemma get_c_dataset_items:
  assumes "Inr item \<in> set (get_c_dataset listdir np_load dir)"
  shows "\<exists>a b c. item = Tuple [a, b, c]"
proof (cases "np_load (dir @ ''/'' @ ''labels.npy'')")
  case (Inl e)
  then show ?thesis using assms by (simp add: get_c_dataset_def)
next
  case (Inr y)
  then obtain f where "Inr item = (case np_load f of Inl e \<Rightarrow> Inl e
      | Inr d \<Rightarrow> Inr (Tuple [Str (split_dot0 f), d, y]))"
    using assms by (auto simp: get_c_dataset_def Let_def)
  then show ?thesis by (cases "np_load f") auto
qed

lemma corruption_loop_raises:
  assumes "\<forall>item. Inr item \<in> set gen \<longrightarrow> (\<exists>a b c. item = Tuple [a, b, c])"
  shows "\<exists>e. corruption_loop thresholds sdim transform n_batch_test gen = ([], Raised e)"
proof (cases gen)
  case Nil
  then show ?thesis by simp
next
  case (Cons g rest)
  show ?thesis
  proof (cases g)
    case (Inl e)
    then show ?thesis using Cons by simp
  next
    case (Inr item)
    then obtain a b c where "item = Tuple [a, b, c]" using assms Cons by auto
    then show ?thesis using Cons Inr by (simp add: unpack_target_triple)
  qed
qed

lemma inference_rejection_raises:
  "\<exists>e. inference_rejection sdim transform n_classes n_batch_test percentile get_dataset listdir np_load =
         ([], Raised e)"
proof (cases "get_thresholds sdim n_classes n_batch_test percentile get_dataset")
  case (Inl e)
  then show ?thesis by (simp add: inference_rejection_def)
next
  case (Inr threshold_list)
  have "\<forall>item. Inr item \<in> set (get_c_dataset listdir np_load ''data/CIFAR-10-C'') \<longrightarrow>
          (\<exists>a b c. item = Tuple [a, b, c])"
    using get_c_dataset_items by blast
  from corruption_loop_raises [OF this] Inr show ?thesis
    by (simp add: inference_rejection_def)
qed

section \<open>Claims about threshold calibration\<close>








section \<open>Claims about the rejection decision\<close>

text \<open>
  C5.  In every rejection decision a sample is rejected iff its score at the predicted
  class is strictly less than the threshold at the predicted class.  The predicted class
  is the first index of the largest score and \<open>vals\<close> holds the score there; the
  confidence mask is the complement of the reject mask, so a sample whose score equals
  the threshold is accepted.
\<close>

theorem reject_iff_strictly_below:
  assumes "max_dim1 log_lik = Inr (vals, pred)"
    and "reject_idx thresholds vals pred = Inr rej"
    and "i < length log_lik"
  shows "pred ! i = argmax_row (log_lik ! i) \<and>
         log_lik ! i ! (pred ! i) = Max (set (log_lik ! i)) \<and>
         vals ! i = log_lik ! i ! (pred ! i) \<and>
         (rej ! i \<longleftrightarrow> log_lik ! i ! (pred ! i) < thresholds ! (pred ! i)) \<and>
         (\<exists>conf. confidence_idx thresholds vals pred = Inr conf \<and>
                 (conf ! i \<longleftrightarrow> \<not> rej ! i) \<and>
                 (log_lik ! i ! (pred ! i) = thresholds ! (pred ! i) \<longrightarrow> conf ! i \<and> \<not> rej ! i))"
proof -
  let ?batch = "map (\<lambda>r. (r, 0::nat)) log_lik"
  have rows: "map (\<lambda>r. r) (map fst ?batch) = log_lik" by (simp add: comp_def)
  have m: "max_dim1 (map (\<lambda>r. r) (map fst ?batch)) = Inr (vals, pred)"
    using assms(1) by (simp only: rows)
  obtain thr where thr: "index_select thresholds pred = Inr thr"
    using assms(2) by (cases "index_select thresholds pred") (simp_all add: reject_idx_def)
  then obtain conf where c: "confidence_idx thresholds vals pred = Inr conf"
    by (simp add: confidence_idx_def)
  note d = decision_masks [OF m c assms(2)]
  have i: "i < length ?batch" using assms(3) by simp
  have p: "pred ! i = argmax_row (log_lik ! i)" using d(3) assms(3) by simp
  have ne: "log_lik ! i \<noteq> []" using max_dim1_Inr(1) [OF assms(1)] assms(3) by (metis nth_mem)
  have v: "vals ! i = log_lik ! i ! (pred ! i)"
    using max_dim1_Inr(2) [OF assms(1)] assms(3) row_max_props(2) [OF ne] by (simp add: p)
  have r: "rej ! i \<longleftrightarrow> log_lik ! i ! (pred ! i) < thresholds ! (pred ! i)"
    using d(2) assms(3) by (simp add: spec_rejected_def p)
  have cf: "conf ! i \<longleftrightarrow> \<not> rej ! i" using d(1) d(2) assms(3) by simp
  have "log_lik ! i ! (pred ! i) = thresholds ! (pred ! i) \<longrightarrow> conf ! i \<and> \<not> rej ! i"
    using r cf by simp
  moreover have "log_lik ! i ! (pred ! i) = Max (set (log_lik ! i))"
    using row_max_Max [OF ne] by (simp only: p)
  ultimately show ?thesis using p v r c cf by blast
qed

theorem reject_iff_strictly_below_witness:
  "max_dim1 [[9 / 10, 1 / 10], [2 / 10, 1 / 10 :: rat]] = Inr ([9 / 10, 2 / 10], [0, 0]) \<and>
   reject_idx [9 / 10, 1 / 2 :: rat] [9 / 10, 2 / 10] [0, 0] = Inr [False, True] \<and>
   confidence_idx [9 / 10, 1 / 2 :: rat] [9 / 10, 2 / 10] [0, 0] = Inr [True, False]"
proof -
  have h1: "max_dim1 [[9 / 10, 1 / 10], [2 / 10, 1 / 10 :: rat]] = Inr ([9 / 10, 2 / 10], [0, 0])"
    by (simp add: max_dim1_def argmax_row_def)
  have h2: "reject_idx [9 / 10, 1 / 2 :: rat] [9 / 10, 2 / 10] [0, 0] = Inr [False, True]"
    by (simp add: reject_idx_def index_select_def)
  have h3: "(0::nat) < length [[9 / 10, 1 / 10], [2 / 10, 1 / 10 :: rat]]" by simp
  from reject_iff_strictly_below [OF h1 h2 h3] h1 h2
  show ?thesis by (simp add: confidence_idx_def index_select_def)
qed





section \<open>Claims about the adversarial pipeline\<close>

text \<open>
  C9.  In the evaluated batch (the first batch of the test loader) only the samples the
  clean model classifies correctly are retained, passed to the attack and counted into
  \<open>n_eval\<close>; a retained sample counts as a successful adversarial example iff the
  prediction on its adversarial counterpart differs from its label; and the reported
  \<open>success_adv_rate\<close> is \<open>n_successful_adv / n_eval\<close>.  The attack returns as many
  inputs as it was given.  The counters are characterised for every run of the
  evaluation loop, the rate for every run that reports.
\<close>

theorem adversarial_success_rate:
  assumes "length (attack (map fst (spec_retained model (take n_batch_test test_set)))) =
           length (spec_retained model (take n_batch_test test_set))"
  shows "(\<forall>c. adv_counts thresholds1 thresholds2 model attack n_batch_test test_set = Inr c \<longrightarrow>
            n_eval c = length (spec_retained model (take n_batch_test test_set)) \<and>
            n_successful_adv c =
              length (spec_successful model
                        (attack (map fst (spec_retained model (take n_batch_test test_set))))
                        (map snd (spec_retained model (take n_batch_test test_set))))) \<and>
         (\<forall>rep. attack_run_rejection_policy model attack n_classes n_batch_test train_set test_set = Inr rep \<longrightarrow>
            n_eval (counts rep) = length (spec_retained model (take n_batch_test test_set)) \<and>
            n_successful_adv (counts rep) =
              length (spec_successful model
                        (attack (map fst (spec_retained model (take n_batch_test test_set))))
                        (map snd (spec_retained model (take n_batch_test test_set)))) \<and>
            n_eval (counts rep) \<noteq> 0 \<and>
            success_adv_rate rep =
              rat_of_nat (n_successful_adv (counts rep)) / rat_of_nat (n_eval (counts rep)))"
proof -
  let ?ret = "spec_retained model (take n_batch_test test_set)"
  let ?succ = "spec_successful model (attack (map fst ?ret)) (map snd ?ret)"
  have counters: "n_eval c = length ?ret \<and> n_successful_adv c = length ?succ"
    if c: "adv_counts t1 t2 model attack n_batch_test test_set = Inr c" for t1 t2 c
  proof -
    from adv_counts_cases [OF c] show ?thesis
    proof (elim disjE conjE)
      assume e: "test_set = []"
        and z: "c = \<lparr> n_eval = 0, n_successful_adv = 0, n_rejected_adv1 = 0, n_rejected_adv2 = 0 \<rparr>"
      have "?ret = []" using e by (simp add: spec_retained_def)
      then show ?thesis using z by (simp add: spec_successful_def)
    next
      assume b: "adv_batch t1 t2 model attack (take n_batch_test test_set)
            \<lparr> n_eval = 0, n_successful_adv = 0, n_rejected_adv1 = 0, n_rejected_adv2 = 0 \<rparr> = Inr c"
      from adv_batch_Inr(1) [OF b] adv_batch_Inr(4) [OF b assms] show ?thesis by simp
    qed
  qed
  have run: "n_eval (counts rep) = length ?ret \<and> n_successful_adv (counts rep) = length ?succ \<and>
      n_eval (counts rep) \<noteq> 0 \<and>
      success_adv_rate rep =
        rat_of_nat (n_successful_adv (counts rep)) / rat_of_nat (n_eval (counts rep))"
    if r: "attack_run_rejection_policy model attack n_classes n_batch_test train_set test_set = Inr rep"
    for rep
  proof -
    from attack_run_Inr [OF r] obtain t1 t2 where
      c: "adv_counts t1 t2 model attack n_batch_test test_set = Inr (counts rep)"
      and ar: "adv_rates (counts rep) = Inr rep" by blast
    from counters [OF c] adv_rates_Inr(3) [OF ar] adv_rates_Inr(6) [OF ar] show ?thesis by blast
  qed
  from counters run show ?thesis by blast
qed

theorem adversarial_success_rate_witness:
  "attack_run_rejection_policy (\<lambda>x. x) (map (\<lambda>x. if x = [20, 0] then [0, 5] else x)) 2 200
     (\<lambda>c. if c = 0 then [([10, 0], 0)] else [([0, 10], 1)])
     [([20, 0 :: int], 0), ([30, 0], 0), ([0, 7], 0)] =
   Inr \<lparr> counts = \<lparr> n_eval = 2, n_successful_adv = 1, n_rejected_adv1 = 1, n_rejected_adv2 = 1 \<rparr>,
         reject_rate1 = 1, reject_rate2 = 1, success_adv_rate = 1 / 2 \<rparr> \<and>
   spec_retained (\<lambda>x. x) (take 200 [([20, 0 :: int], 0), ([30, 0], 0), ([0, 7], 0)]) =
     [([20, 0], 0), ([30, 0], 0)] \<and>
   spec_successful (\<lambda>x. x) [[0, 5 :: int], [30, 0]] [0, 0] = [([0, 5], 0)]"
proof -
  let ?attack = "map (\<lambda>x :: int list. if x = [20, 0] then [0, 5] else x)"
  let ?test = "[([20, 0 :: int], 0 :: nat), ([30, 0], 0), ([0, 7], 0)]"
  have e: "attack_run_rejection_policy (\<lambda>x. x) ?attack 2 200
     (\<lambda>c. if c = 0 then [([10, 0], 0)] else [([0, 10], 1)]) ?test =
   Inr \<lparr> counts = \<lparr> n_eval = 2, n_successful_adv = 1, n_rejected_adv1 = 1, n_rejected_adv2 = 1 \<rparr>,
         reject_rate1 = 1, reject_rate2 = 1, success_adv_rate = 1 / 2 \<rparr>"
    by code_simp
  have r: "spec_retained (\<lambda>x. x) (take 200 ?test) = [([20, 0], 0), ([30, 0], 0)]"
    by (simp add: spec_retained_def argmax_row_def)
  have s: "spec_successful (\<lambda>x. x) [[0, 5 :: int], [30, 0]] [0, 0] = [([0, 5], 0)]"
    by (simp add: spec_successful_def argmax_row_def)
  have h: "length (?attack (map fst (spec_retained (\<lambda>x. x) (take 200 ?test)))) =
           length (spec_retained (\<lambda>x. x) (take 200 ?test))"
    by (simp only: r) simp
  from adversarial_success_rate [where model = "\<lambda>x. x" and attack = ?attack and
      n_batch_test = 200 and test_set = ?test and n_classes = 2 and
      train_set = "\<lambda>c. if c = 0 then [([10, 0], 0)] else [([0, 10], 1)]", OF h] e r s
  show ?thesis by simp
qed

text \<open>
  C1.  The source comments \<^verbatim>\<open>n_rejected_adv1\<close> and \<^verbatim>\<open>n_rejected_adv2\<close> as counts of
  rejected successful adversarial examples, at most \<^verbatim>\<open>n_successful_adv\<close>.  The reject
  masks of lines 133 and 136 are not restricted to \<^verbatim>\<open>success_idx\<close>: an adversarial
  input that is still classified correctly but scores below the threshold is counted as
  rejected.  In the run below both adversarial inputs are rejected and only one is
  successful, so the reported rejection rate is 2.
\<close>

theorem rejected_exceeds_successful:
  "attack_run_rejection_policy (\<lambda>x. x) (map (\<lambda>x. if x = [20, 0] then [5, 0] else [0, 5])) 2 200
     (\<lambda>c. if c = 0 then [([10, 0], 0)] else [([0, 10], 1)])
     [([20, 0 :: int], 0), ([30, 0], 0)] =
   Inr \<lparr> counts = \<lparr> n_eval = 2, n_successful_adv = 1, n_rejected_adv1 = 2, n_rejected_adv2 = 2 \<rparr>,
         reject_rate1 = 2, reject_rate2 = 2, success_adv_rate = 1 / 2 \<rparr>"
  by code_simp

text \<open>
  C2 (amended).  A zero denominator is not reported as an undefined value: the division
  raises \<^verbatim>\<open>ZeroDivisionError\<close> and the run ends there.  In the adversarial pipeline this
  happens when the first batch has no successful adversarial example, in the corruption
  pipeline when a slice has no accepted sample (\<open>acc + false_rate = 0\<close>, which includes
  the empty slice).
\<close>

theorem zero_denominator_raises:
  "(get_thresholds_adv model n_classes n_batch_test train_set = Inr (t1, t2) \<and>
    adv_counts t1 t2 model attack n_batch_test test_set = Inr c \<and> n_successful_adv c = 0 \<longrightarrow>
      attack_run_rejection_policy model attack n_classes n_batch_test train_set test_set =
        Inl ZeroDivisionError) \<and>
   (slice_counters thresholds sdim transform n_batch
      (py_slice data (severity * 10000) ((severity + 1) * 10000))
      (py_slice labels (severity * 10000) ((severity + 1) * 10000)) = Inr c' \<and>
    n_correct c' + n_false c' = 0 \<longrightarrow>
      eval_severity thresholds sdim transform n_batch data labels severity = Inl ZeroDivisionError)"
proof (intro conjI impI)
  assume "get_thresholds_adv model n_classes n_batch_test train_set = Inr (t1, t2) \<and>
    adv_counts t1 t2 model attack n_batch_test test_set = Inr c \<and> n_successful_adv c = 0"
  then show "attack_run_rejection_policy model attack n_classes n_batch_test train_set test_set =
        Inl ZeroDivisionError"
    by (simp add: attack_run_rejection_policy_def adv_rates_zero)
next
  assume h: "slice_counters thresholds sdim transform n_batch
      (py_slice data (severity * 10000) ((severity + 1) * 10000))
      (py_slice labels (severity * 10000) ((severity + 1) * 10000)) = Inr c' \<and>
    n_correct c' + n_false c' = 0"
  have "slice_rates c' n = Inl ZeroDivisionError" for n
    using h by (simp add: slice_rates_def py_div_def)
  then show "eval_severity thresholds sdim transform n_batch data labels severity = Inl ZeroDivisionError"
    using h by (simp add: eval_severity_def Let_def)
qed

theorem zero_denominator_raises_witness:
  "attack_run_rejection_policy (\<lambda>x. x) (\<lambda>xs. xs) 2 200
     (\<lambda>c. if c = 0 then [([10, 0], 0)] else [([0, 10], 1)])
     [([20, 0 :: int], 0), ([30, 0], 0)] = Inl ZeroDivisionError \<and>
   eval_severity [95 / 100, 95 / 100 :: rat] (\<lambda>x. x) (\<lambda>x. x) 200
     [[9 / 10, 1 / 10], [3 / 10, 7 / 10]] [0, 1] 0 = Inl ZeroDivisionError"
proof -
  have t: "get_thresholds_adv (\<lambda>x. x) 2 200
      (\<lambda>c. if c = 0 then [([10, 0 :: int], 0)] else [([0, 10], 1)]) = Inr ([10, 10], [10, 10])"
    by code_simp
  have c: "adv_counts [10, 10] [10, 10] (\<lambda>x. x) (\<lambda>xs. xs) 200 [([20, 0 :: int], 0), ([30, 0], 0)] =
      Inr \<lparr> n_eval = 2, n_successful_adv = 0, n_rejected_adv1 = 0, n_rejected_adv2 = 0 \<rparr>"
    by code_simp
  have s: "slice_counters [95 / 100, 95 / 100 :: rat] (\<lambda>x. x) (\<lambda>x. x) 200
      (py_slice [[9 / 10, 1 / 10], [3 / 10, 7 / 10]] (0 * 10000) ((0 + 1) * 10000))
      (py_slice [0, 1] (0 * 10000) ((0 + 1) * 10000)) =
      Inr \<lparr> n_correct = 0, n_false = 0, n_reject = 2 \<rparr>"
    by code_simp
  from zero_denominator_raises [of "\<lambda>x. x" 2 200
      "\<lambda>c. if c = 0 then [([10, 0 :: int], 0)] else [([0, 10], 1)]" "[10, 10]" "[10, 10]"
      "\<lambda>xs. xs" "[([20, 0 :: int], 0), ([30, 0], 0)]"
      "\<lparr> n_eval = 2, n_successful_adv = 0, n_rejected_adv1 = 0, n_rejected_adv2 = 0 \<rparr>"
      "[95 / 100, 95 / 100 :: rat]" "\<lambda>x. x" "\<lambda>x. x" 200 "[[9 / 10, 1 / 10], [3 / 10, 7 / 10]]" 0
      "[0, 1]" "\<lparr> n_correct = 0, n_false = 0, n_reject = 2 \<rparr>"] t c s
  show ?thesis by simp
qed

text \<open>
  C2 as stated fails: an attack that changes nothing leaves \<open>n_successful_adv = 0\<close>, and
  a slice whose two samples are both rejected has \<open>acc + false_rate = 0\<close>; both runs end
  with \<^verbatim>\<open>ZeroDivisionError\<close>.
\<close>

theorem zero_denominator_counterexample:
  "adv_counts [10, 10] [10, 10] (\<lambda>x. x) (\<lambda>xs. xs) 200 [([20, 0 :: int], 0)] =
     Inr \<lparr> n_eval = 1, n_successful_adv = 0, n_rejected_adv1 = 0, n_rejected_adv2 = 0 \<rparr> \<and>
   attack_run_rejection_policy (\<lambda>x. x) (\<lambda>xs. xs) 2 200
     (\<lambda>c. if c = 0 then [([10, 0], 0)] else [([0, 10], 1)])
     [([20, 0 :: int], 0)] = Inl ZeroDivisionError \<and>
   slice_counters [95 / 100, 95 / 100 :: rat] (\<lambda>x. x) (\<lambda>x. x) 200
     [[9 / 10, 1 / 10], [3 / 10, 7 / 10]] [0, 1] = Inr \<lparr> n_correct = 0, n_false = 0, n_reject = 2 \<rparr> \<and>
   eval_severity [95 / 100, 95 / 100 :: rat] (\<lambda>x. x) (\<lambda>x. x) 200
     [[9 / 10, 1 / 10], [3 / 10, 7 / 10]] [0, 1] 0 = Inl ZeroDivisionError"
  by code_simp

section \<open>Claims about the corruption pipeline\<close>

text \<open>
  C8.  The loop header of line 100 unpacks each 3-tuple yielded by the generator into
  two targets, as if the generator were wrapped in \<^verbatim>\<open>enumerate\<close>.  With a corruption
  directory that holds one data file and the label file, the run raises
  \<^verbatim>\<open>ValueError\<close> at the first item: no severity slice is evaluated and nothing is
  printed.  That is the run in which the data file can be loaded by its bare name, as
  \<^verbatim>\<open>get_c_dataset\<close> asks; when the file exists only inside the directory, the
  generator itself raises \<^verbatim>\<open>FileNotFoundError\<close> before it yields.
\<close>

theorem corruption_loop_unpack_fails:
  "inference_rejection (\<lambda>x :: int list. x) (\<lambda>r :: int list. r) 2 200 (1 / 100)
     (\<lambda>c. if c = 0 then [([10, 0], 0)] else [([0, 10], 1)])
     (\<lambda>dir. [''fog.npy'', ''labels.npy''])
     (\<lambda>file. if file = ''fog.npy'' then Inr (Array (replicate 50000 [20, 0]))
              else if file = ''data/CIFAR-10-C/labels.npy'' then Inr (Labels (replicate 50000 0))
              else Inl FileNotFoundError) =
     ([], Raised ValueError) \<and>
   inference_rejection (\<lambda>x :: int list. x) (\<lambda>r :: int list. r) 2 200 (1 / 100)
     (\<lambda>c. if c = 0 then [([10, 0], 0)] else [([0, 10], 1)])
     (\<lambda>dir. [''fog.npy'', ''labels.npy''])
     (\<lambda>file. if file = ''data/CIFAR-10-C/fog.npy'' then Inr (Array (replicate 50000 [20, 0]))
              else if file = ''data/CIFAR-10-C/labels.npy'' then Inr (Labels (replicate 50000 0))
              else Inl FileNotFoundError) =
     ([], Raised FileNotFoundError)"
proof -
  have t: "get_thresholds (\<lambda>x :: int list. x) 2 200 (1 / 100)
      (\<lambda>c. if c = 0 then [([10, 0], 0)] else [([0, 10], 1)]) = Inr [10, 10]"
    by code_simp
  show ?thesis
    by (simp add: inference_rejection_def t get_c_dataset_def unpack_target_def unpack_def)
qed

end
